theory Spec2Isabelle
  imports Complex_Main
begin

section \<open>Pulse portraits of psrsigsim: values, errors, instance state\<close>

text \<open>
  The module \<^verbatim>\<open>psrsigsim/pulsar/portraits.py\<close> declares the base class
  \<^verbatim>\<open>PulsePortrait\<close>, the one-dimensional \<^verbatim>\<open>GaussPortrait\<close> (a subclass of
  \<^verbatim>\<open>PulsePortrait\<close>), and two classes whose constructors only raise: a second class
  named \<^verbatim>\<open>GaussPortrait\<close> (two-dimensional) and \<^verbatim>\<open>UserPortrait\<close>.

  Two models of the numbers are used. The sections on the classes compute with
  \<^typ>\<open>real\<close>: they follow the control flow, the shapes and the algebra of the code,
  not the rounding of IEEE doubles, and HOL's total division does not represent what
  numpy reports as \<^verbatim>\<open>inf\<close> or \<^verbatim>\<open>nan\<close>. They are used for the questions that
  the control flow decides, and for evaluations at concrete inputs where doubles neither
  underflow, overflow nor divide by zero. The section on IEEE arithmetic repeats the
  evaluator with the arithmetic as a parameter and models floating-point division and
  maximum with their special values; the statement about normalisation is made there.
\<close>

datatype error =
    NotImplementedError
  | AttributeError
  | UnboundLocalError
  | ValueError
  | TypeError

text \<open>
  A component parameter as the constructor receives and stores it: a Python number, a
  Python sequence (list or tuple) of numbers, or a one-dimensional numpy array.
\<close>

datatype param =
    Scalar real
  | PySeq "real list"
  | NdArray "real list"

text \<open>
  A numpy array of one or two dimensions. A two-dimensional array is the list of its rows
  (axis 0 first); the shape (0, M) is the empty list of rows.
\<close>

datatype ndarray =
    Arr1 "real list"
  | Arr2 "real list list"

datatype pyval =
    PyNone
  | PyFloat real
  | PyParam param
  | PyArray ndarray

text \<open>
  The instance dictionary of a one-dimensional \<^verbatim>\<open>GaussPortrait\<close>. \<^verbatim>\<open>__init__\<close> binds
  \<^verbatim>\<open>_peak\<close>, \<^verbatim>\<open>_width\<close> and \<^verbatim>\<open>_amp\<close>; \<^verbatim>\<open>init_profile\<close> binds \<^verbatim>\<open>_profile\<close> and
  \<^verbatim>\<open>_Amax\<close>. For the last two, \<open>None\<close> means that the instance dictionary has no such
  entry (yet).
\<close>

record GaussPortrait =
  priv_peak :: param
  priv_width :: param
  priv_amp :: param
  priv_profile :: "ndarray option"
  priv_Amax :: "real option"

definition GaussPortrait_init :: "param \<Rightarrow> param \<Rightarrow> param \<Rightarrow> GaussPortrait" where
  "GaussPortrait_init peak0 width0 amp0 =
     \<lparr>priv_peak = peak0, priv_width = width0, priv_amp = amp0,
      priv_profile = None, priv_Amax = None\<rparr>"

text \<open>The constructor's defaults: \<^verbatim>\<open>peak=0.5, width=0.05, amp=1\<close>.\<close>

definition GaussPortrait_default :: GaussPortrait where
  "GaussPortrait_default = GaussPortrait_init (Scalar (1/2)) (Scalar (1/20)) (Scalar 1)"

subsection \<open>Attribute lookup\<close>

definition instance_dict :: "GaussPortrait \<Rightarrow> (string \<times> pyval) list" where
  "instance_dict self =
     [(''_peak'', PyParam (priv_peak self)),
      (''_width'', PyParam (priv_width self)),
      (''_amp'', PyParam (priv_amp self))]
     @ (case priv_profile self of None \<Rightarrow> [] | Some a \<Rightarrow> [(''_profile'', PyArray a)])
     @ (case priv_Amax self of None \<Rightarrow> [] | Some m \<Rightarrow> [(''_Amax'', PyFloat m)])"

text \<open>
  The data attributes bound in the class bodies. \<^verbatim>\<open>PulsePortrait\<close> binds
  \<^verbatim>\<open>_profile = None\<close>; the body of the one-dimensional \<^verbatim>\<open>GaussPortrait\<close> binds none.
\<close>

definition PulsePortrait_class_data :: "(string \<times> pyval) list" where
  "PulsePortrait_class_data = [(''_profile'', PyNone)]"

definition GaussPortrait_class_data :: "(string \<times> pyval) list" where
  "GaussPortrait_class_data = []"

text \<open>
  \<^verbatim>\<open>self.<name>\<close> for a name that is no method and no property: the instance
  dictionary first, then the class bodies in method resolution order; a name bound nowhere
  raises \<^verbatim>\<open>AttributeError\<close>.
\<close>

definition getattr_data :: "GaussPortrait \<Rightarrow> string \<Rightarrow> error + pyval" where
  "getattr_data self name =
     (case map_of (instance_dict self @ GaussPortrait_class_data @ PulsePortrait_class_data) name of
        None \<Rightarrow> Inl AttributeError
      | Some v \<Rightarrow> Inr v)"

text \<open>The properties \<^verbatim>\<open>profile\<close>, \<^verbatim>\<open>peak\<close>, \<^verbatim>\<open>width\<close>, \<^verbatim>\<open>amp\<close> and \<^verbatim>\<open>Amax\<close>.\<close>

definition profile :: "GaussPortrait \<Rightarrow> error + pyval" where
  "profile self = getattr_data self ''_profile''"

definition peak :: "GaussPortrait \<Rightarrow> param" where
  "peak self = priv_peak self"

definition width :: "GaussPortrait \<Rightarrow> param" where
  "width self = priv_width self"

definition amp :: "GaussPortrait \<Rightarrow> param" where
  "amp self = priv_amp self"

definition Amax :: "GaussPortrait \<Rightarrow> error + real" where
  "Amax self = (case priv_Amax self of None \<Rightarrow> Inl AttributeError | Some m \<Rightarrow> Inr m)"

definition hasattr_Amax :: "GaussPortrait \<Rightarrow> bool" where
  "hasattr_Amax self = (priv_Amax self \<noteq> None)"

section \<open>The numpy operations the module uses\<close>

text \<open>\<^verbatim>\<open>np.arange(Nphase)/Nphase\<close> (true division); empty for \<^verbatim>\<open>Nphase <= 0\<close>.\<close>

definition arange_over :: "int \<Rightarrow> real list" where
  "arange_over Nphase = map (\<lambda>i. real i / real_of_int Nphase) [0..<nat Nphase]"

text \<open>
  \<^verbatim>\<open>x[:, np.newaxis]\<close>: a one-dimensional array becomes a column of shape (N, 1), given
  here by its entries; a Python number is not subscriptable and a Python sequence does not
  accept a tuple index, both \<^verbatim>\<open>TypeError\<close>.
\<close>

fun newaxis_col :: "param \<Rightarrow> error + real list" where
  "newaxis_col (NdArray xs) = Inr xs"
| "newaxis_col (Scalar v) = Inl TypeError"
| "newaxis_col (PySeq xs) = Inl TypeError"

text \<open>
  A binary operation between an array of shape (n, M) and a column of shape (k, 1),
  broadcast along axis 0: the lengths agree, or one of them is 1, or numpy raises
  \<^verbatim>\<open>ValueError\<close>.
\<close>

definition broadcast_col ::
  "(real \<Rightarrow> real \<Rightarrow> real) \<Rightarrow> real list list \<Rightarrow> real list \<Rightarrow> error + real list list" where
  "broadcast_col f rows col =
     (if length rows = length col then Inr (map2 (\<lambda>r c. map (\<lambda>v. f v c) r) rows col)
      else if length col = 1 then Inr (map (map (\<lambda>v. f v (hd col))) rows)
      else if length rows = 1 then Inr (map (\<lambda>c. map (\<lambda>v. f v c) (hd rows)) col)
      else Inl ValueError)"

text \<open>
  \<^verbatim>\<open>np.amax(a)\<close> and \<^verbatim>\<open>a.max()\<close>: the largest entry over all axes; a zero-size array
  raises \<^verbatim>\<open>ValueError\<close>.
\<close>

fun amax :: "ndarray \<Rightarrow> error + real" where
  "amax (Arr1 xs) = (case xs of [] \<Rightarrow> Inl ValueError | v # vs \<Rightarrow> Inr (fold max vs v))"
| "amax (Arr2 rows) =
     (case concat rows of [] \<Rightarrow> Inl ValueError | v # vs \<Rightarrow> Inr (fold max vs v))"

text \<open>\<^verbatim>\<open>a / s\<close> and \<^verbatim>\<open>a /= s\<close> for an array and a number.\<close>

fun array_div :: "ndarray \<Rightarrow> real \<Rightarrow> ndarray" where
  "array_div (Arr1 xs) s = Arr1 (map (\<lambda>v. v / s) xs)"
| "array_div (Arr2 rows) s = Arr2 (map (map (\<lambda>v. v / s)) rows)"

section \<open>The one-dimensional GaussPortrait\<close>

text \<open>
  The expression of the \<^verbatim>\<open>try\<close> block of \<^verbatim>\<open>calc_profile\<close>, in Python's order of
  evaluation:
  \<^verbatim>\<open>self.amp[:,np.newaxis] * np.exp(-0.5 * ((ph[np.newaxis,:] - self.peak[:,np.newaxis]) / self.width[:,np.newaxis])**2)\<close>.
  The left operand of the product is subscripted first, then the peak (the subtraction of
  a (1, M) row and an (N, 1) column always broadcasts), then the width, then the division
  and at last the product broadcast. The value is a two-dimensional array with one row per
  component; nothing sums over the rows.
\<close>

definition gauss_components :: "param \<Rightarrow> param \<Rightarrow> param \<Rightarrow> real list \<Rightarrow> error + ndarray" where
  "gauss_components a p w ph =
     (case newaxis_col a of
        Inl e \<Rightarrow> Inl e
      | Inr av \<Rightarrow>
         (case newaxis_col p of
            Inl e \<Rightarrow> Inl e
          | Inr pv \<Rightarrow>
             (case newaxis_col w of
                Inl e \<Rightarrow> Inl e
              | Inr wv \<Rightarrow>
                 (case broadcast_col (\<lambda>v s. v / s) (map (\<lambda>pk. map (\<lambda>x. x - pk) ph) pv) wv of
                    Inl e \<Rightarrow> Inl e
                  | Inr q \<Rightarrow>
                     (case broadcast_col (\<lambda>v s. s * v)
                             (map (map (\<lambda>v. exp (- (1/2) * v\<^sup>2))) q) av of
                        Inl e \<Rightarrow> Inl e
                      | Inr g \<Rightarrow> Inr (Arr2 g))))))"

text \<open>
  \<^verbatim>\<open>calc_profile(self, phases)\<close> for a one-dimensional phase sequence. A \<^verbatim>\<open>TypeError\<close>
  of the \<^verbatim>\<open>try\<close> block enters the handler, whose statement \<^verbatim>\<open>profile += ...\<close> reads
  the local \<^verbatim>\<open>profile\<close> before anything has bound it (its initialisation
  \<^verbatim>\<open>profile = np.zeros_like(ph)\<close> is commented out): \<^verbatim>\<open>UnboundLocalError\<close>. Any other
  exception of the block propagates. The method assigns to no attribute of \<^verbatim>\<open>self\<close>; the
  instance is returned as the second component.
\<close>

definition calc_profile :: "GaussPortrait \<Rightarrow> real list \<Rightarrow> (error + ndarray) \<times> GaussPortrait" where
  "calc_profile self phases =
     (case gauss_components (amp self) (peak self) (width self) phases of
        Inl e \<Rightarrow> (Inl (if e = TypeError then UnboundLocalError else e), self)
      | Inr prof \<Rightarrow>
          (case (if hasattr_Amax self then Amax self else amax prof) of
             Inl e \<Rightarrow> (Inl e, self)
           | Inr A \<Rightarrow> (Inr (array_div prof A), self)))"

text \<open>
  \<^verbatim>\<open>init_profile(self, Nphase)\<close>: three assignments, each after a call that may raise.
  \<^verbatim>\<open>self._profile = self.calc_profile(ph)\<close>, then \<^verbatim>\<open>self._Amax = self._profile.max()\<close>,
  then \<^verbatim>\<open>self._profile /= self.Amax\<close>.
\<close>

definition init_profile :: "GaussPortrait \<Rightarrow> int \<Rightarrow> (error + unit) \<times> GaussPortrait" where
  "init_profile self Nphase =
     (case calc_profile self (arange_over Nphase) of
        (Inl e, s0) \<Rightarrow> (Inl e, s0)
      | (Inr prof, s0) \<Rightarrow>
          (let s1 = s0\<lparr>priv_profile := Some prof\<rparr> in
           case amax prof of
             Inl e \<Rightarrow> (Inl e, s1)
           | Inr m \<Rightarrow>
               (let s2 = s1\<lparr>priv_Amax := Some m\<rparr> in
                case Amax s2 of
                  Inl e \<Rightarrow> (Inl e, s2)
                | Inr A \<Rightarrow> (Inr (), s2\<lparr>priv_profile := Some (array_div prof A)\<rparr>))))"

section \<open>The base class PulsePortrait\<close>

text \<open>\<^verbatim>\<open>PulsePortrait.calc_portrait\<close>: raises \<^verbatim>\<open>NotImplementedError\<close>.\<close>

definition PulsePortrait_calc_portrait :: "'s \<Rightarrow> real list \<Rightarrow> (error + ndarray) \<times> 's" where
  "PulsePortrait_calc_portrait self phases = (Inl NotImplementedError, self)"

text \<open>
  The methods of signature \<^verbatim>\<open>(self, phases)\<close> that each class body defines, by name.
  The one-dimensional \<^verbatim>\<open>GaussPortrait\<close> defines \<^verbatim>\<open>calc_profile\<close>; \<^verbatim>\<open>PulsePortrait\<close>
  defines \<^verbatim>\<open>calc_portrait\<close>. A method name is resolved in the subclass first.
\<close>

definition GaussPortrait_methods ::
  "(string \<times> (GaussPortrait \<Rightarrow> real list \<Rightarrow> (error + ndarray) \<times> GaussPortrait)) list" where
  "GaussPortrait_methods = [(''calc_profile'', calc_profile)]"

definition PulsePortrait_methods ::
  "(string \<times> (GaussPortrait \<Rightarrow> real list \<Rightarrow> (error + ndarray) \<times> GaussPortrait)) list" where
  "PulsePortrait_methods = [(''calc_portrait'', PulsePortrait_calc_portrait)]"

definition resolve_method ::
  "string \<Rightarrow> (GaussPortrait \<Rightarrow> real list \<Rightarrow> (error + ndarray) \<times> GaussPortrait) option" where
  "resolve_method name = map_of (GaussPortrait_methods @ PulsePortrait_methods) name"

definition not_generated_msg :: string where
  "not_generated_msg = ''Base profile not generated, returning `None`''"

text \<open>
  \<^verbatim>\<open>PulsePortrait.__call__(self, phases=None)\<close> on an instance of the one-dimensional
  \<^verbatim>\<open>GaussPortrait\<close>. The third argument and result is the list of messages passed to
  \<^verbatim>\<open>log.warning\<close> so far. Without phases the method reads \<^verbatim>\<open>self._portrait\<close>; with
  phases it calls \<^verbatim>\<open>self.calc_portrait(phases)\<close>.
\<close>

definition PulsePortrait_call ::
  "GaussPortrait \<Rightarrow> real list option \<Rightarrow> string list
     \<Rightarrow> (error + pyval) \<times> GaussPortrait \<times> string list" where
  "PulsePortrait_call self phases warnings =
     (case phases of
        None \<Rightarrow>
          (case getattr_data self ''_portrait'' of
             Inl e \<Rightarrow> (Inl e, self, warnings)
           | Inr v \<Rightarrow>
               (Inr v, self, if v = PyNone then warnings @ [not_generated_msg] else warnings))
      | Some ph \<Rightarrow>
          (case resolve_method ''calc_portrait'' of
             None \<Rightarrow> (Inl AttributeError, self, warnings)
           | Some f \<Rightarrow>
               (case f self ph of
                  (Inl e, s') \<Rightarrow> (Inl e, s', warnings)
                | (Inr a, s') \<Rightarrow> (Inr (PyArray a), s', warnings))))"

section \<open>The classes whose constructors raise\<close>

text \<open>
  The second class named \<^verbatim>\<open>GaussPortrait\<close> (two-dimensional):
  \<^verbatim>\<open>__init__(self, peak=0.5, width=0.1, amp=1, Nphase=256, freqs=None)\<close>, and
  \<^verbatim>\<open>UserPortrait.__init__(self)\<close>. Both bodies are \<^verbatim>\<open>raise NotImplementedError()\<close>.
\<close>

definition GaussPortrait2D_init ::
  "param \<Rightarrow> param \<Rightarrow> param \<Rightarrow> int \<Rightarrow> real list option \<Rightarrow> error + unit" where
  "GaussPortrait2D_init peak0 width0 amp0 Nphase freqs = Inl NotImplementedError"

definition UserPortrait_init :: "unit \<Rightarrow> error + unit" where
  "UserPortrait_init u = Inl NotImplementedError"

section \<open>The evaluator as the specification words it\<close>

text \<open>
  One Gaussian component, \<^verbatim>\<open>amp * exp(-0.5 * ((phase - peak) / width)^2)\<close>, and the sum
  over the components at every phase of a query. These two definitions follow the
  specification; they serve to state what is compared with \<^const>\<open>gauss_components\<close>.
\<close>

definition gauss_kernel :: "real \<Rightarrow> real \<Rightarrow> real \<Rightarrow> real \<Rightarrow> real" where
  "gauss_kernel a p w x = a * exp (- (1/2) * ((x - p) / w)\<^sup>2)"

definition spec_component_sum ::
  "real list \<Rightarrow> real list \<Rightarrow> real list \<Rightarrow> real list \<Rightarrow> real list" where
  "spec_component_sum a p w ph =
     map (\<lambda>x. sum_list (map (\<lambda>(ai, pi, wi). gauss_kernel ai pi wi x) (zip a (zip p w)))) ph"

section \<open>The evaluator over IEEE arithmetic\<close>

text \<open>
  The definitions above compute with exact reals. They decide every question of control
  flow and shape, and they are evaluated below only at inputs where doubles neither
  underflow nor divide by zero. What follows is the same evaluator with the arithmetic
  left open, and a model of the two IEEE operations that
  \<^verbatim>\<open>Amax = ... np.amax(profile)\<close> and \<^verbatim>\<open>return profile / Amax\<close> use.
\<close>

subsection \<open>Floating-point values\<close>

text \<open>
  A floating-point datum: a finite number (\<open>Fin 0\<close> is the zero with sign bit clear), the
  zero with sign bit set, the two infinities, or a NaN. Every double is such a value; the
  model does not say which reals are representable.
\<close>

datatype fl =
    Fin real
  | NegZero
  | PInf
  | NInf
  | NaN

fun fl_isnan :: "fl \<Rightarrow> bool" where
  "fl_isnan NaN = True"
| "fl_isnan (Fin x) = False"
| "fl_isnan NegZero = False"
| "fl_isnan PInf = False"
| "fl_isnan NInf = False"

fun fl_isinf :: "fl \<Rightarrow> bool" where
  "fl_isinf PInf = True"
| "fl_isinf NInf = True"
| "fl_isinf (Fin x) = False"
| "fl_isinf NegZero = False"
| "fl_isinf NaN = False"

fun fl_iszero :: "fl \<Rightarrow> bool" where
  "fl_iszero (Fin x) = (x = 0)"
| "fl_iszero NegZero = True"
| "fl_iszero PInf = False"
| "fl_iszero NInf = False"
| "fl_iszero NaN = False"

text \<open>The sign bit.\<close>

fun fl_sign :: "fl \<Rightarrow> bool" where
  "fl_sign (Fin x) = (x < 0)"
| "fl_sign NegZero = True"
| "fl_sign PInf = False"
| "fl_sign NInf = True"
| "fl_sign NaN = False"

text \<open>The value of a finite datum (both zeros have the value 0).\<close>

fun fl_val :: "fl \<Rightarrow> real" where
  "fl_val (Fin x) = x"
| "fl_val NegZero = 0"
| "fl_val PInf = 0"
| "fl_val NInf = 0"
| "fl_val NaN = 0"

definition fl_zero :: "bool \<Rightarrow> fl" where
  "fl_zero s = (if s then NegZero else Fin 0)"

definition fl_inf :: "bool \<Rightarrow> fl" where
  "fl_inf s = (if s then NInf else PInf)"

text \<open>
  The comparison \<^verbatim>\<open>a <= b\<close>: false when an operand is a NaN, the two zeros compare
  equal.
\<close>

definition fl_le :: "fl \<Rightarrow> fl \<Rightarrow> bool" where
  "fl_le a b =
     (if fl_isnan a \<or> fl_isnan b then False
      else if a = NInf \<or> b = PInf then True
      else if a = PInf \<or> b = NInf then False
      else fl_val a \<le> fl_val b)"

text \<open>
  IEEE division. The special cases are fixed by the standard; the quotient of two finite
  nonzero operands is the exact quotient rounded to the format by \<open>rnd\<close> (which yields an
  infinity on overflow and a zero on underflow). \<open>rnd\<close> is a parameter.
\<close>

definition fl_div :: "(real \<Rightarrow> fl) \<Rightarrow> fl \<Rightarrow> fl \<Rightarrow> fl" where
  "fl_div rnd a b =
     (if fl_isnan a \<or> fl_isnan b then NaN
      else if fl_isinf a then (if fl_isinf b then NaN else fl_inf (fl_sign a \<noteq> fl_sign b))
      else if fl_isinf b then fl_zero (fl_sign a \<noteq> fl_sign b)
      else if fl_iszero b then (if fl_iszero a then NaN else fl_inf (fl_sign a \<noteq> fl_sign b))
      else if fl_iszero a then fl_zero (fl_sign a \<noteq> fl_sign b)
      else rnd (fl_val a / fl_val b))"

text \<open>
  \<^verbatim>\<open>np.maximum(a, b)\<close>, the operation that \<^verbatim>\<open>np.amax\<close> reduces with: \<open>a\<close> when
  \<^verbatim>\<open>a >= b\<close> or \<open>a\<close> is a NaN, else \<open>b\<close>; a NaN operand gives a NaN.
\<close>

definition fl_maximum :: "fl \<Rightarrow> fl \<Rightarrow> fl" where
  "fl_maximum a b = (if fl_le b a \<or> fl_isnan a then a else b)"

subsection \<open>The evaluator with the arithmetic as a parameter\<close>

text \<open>
  The elementwise operations of \<^verbatim>\<open>calc_profile\<close>, in the order the source uses them:
  subtraction, division, \<^verbatim>\<open>**2\<close>, the constant \<^verbatim>\<open>-0.5\<close>, multiplication,
  \<^verbatim>\<open>np.exp\<close>, and \<^verbatim>\<open>np.maximum\<close> for the reduction.
\<close>

record 'a arith =
  ar_sub :: "'a \<Rightarrow> 'a \<Rightarrow> 'a"
  ar_div :: "'a \<Rightarrow> 'a \<Rightarrow> 'a"
  ar_square :: "'a \<Rightarrow> 'a"
  ar_neghalf :: 'a
  ar_mul :: "'a \<Rightarrow> 'a \<Rightarrow> 'a"
  ar_exp :: "'a \<Rightarrow> 'a"
  ar_max :: "'a \<Rightarrow> 'a \<Rightarrow> 'a"

text \<open>Exact real arithmetic, the arithmetic of the definitions above.\<close>

definition real_arith :: "real arith" where
  "real_arith =
     \<lparr>ar_sub = (\<lambda>x y. x - y), ar_div = (\<lambda>x y. x / y), ar_square = (\<lambda>x. x\<^sup>2),
      ar_neghalf = - (1/2), ar_mul = (\<lambda>x y. x * y), ar_exp = exp, ar_max = max\<rparr>"

datatype 'a gparam =
    GScalar 'a
  | GSeq "'a list"
  | GArray "'a list"

datatype 'a garray =
    GArr1 "'a list"
  | GArr2 "'a list list"

record 'a gportrait =
  gp_peak :: "'a gparam"
  gp_width :: "'a gparam"
  gp_amp :: "'a gparam"
  gp_profile :: "'a garray option"
  gp_Amax :: "'a option"

fun newaxis_col_gen :: "'a gparam \<Rightarrow> error + 'a list" where
  "newaxis_col_gen (GArray xs) = Inr xs"
| "newaxis_col_gen (GScalar v) = Inl TypeError"
| "newaxis_col_gen (GSeq xs) = Inl TypeError"

definition broadcast_col_gen ::
  "('a \<Rightarrow> 'a \<Rightarrow> 'a) \<Rightarrow> 'a list list \<Rightarrow> 'a list \<Rightarrow> error + 'a list list" where
  "broadcast_col_gen f rows col =
     (if length rows = length col then Inr (map2 (\<lambda>r c. map (\<lambda>v. f v c) r) rows col)
      else if length col = 1 then Inr (map (map (\<lambda>v. f v (hd col))) rows)
      else if length rows = 1 then Inr (map (\<lambda>c. map (\<lambda>v. f v c) (hd rows)) col)
      else Inl ValueError)"

text \<open>\<^verbatim>\<open>np.amax\<close>: the reduction \<open>acc = maximum(acc, x)\<close> over all entries.\<close>

fun amax_gen :: "'a arith \<Rightarrow> 'a garray \<Rightarrow> error + 'a" where
  "amax_gen ar (GArr1 xs) =
     (case xs of [] \<Rightarrow> Inl ValueError | v # vs \<Rightarrow> Inr (fold (\<lambda>x acc. ar_max ar acc x) vs v))"
| "amax_gen ar (GArr2 rows) =
     (case concat rows of
        [] \<Rightarrow> Inl ValueError
      | v # vs \<Rightarrow> Inr (fold (\<lambda>x acc. ar_max ar acc x) vs v))"

fun array_div_gen :: "'a arith \<Rightarrow> 'a garray \<Rightarrow> 'a \<Rightarrow> 'a garray" where
  "array_div_gen ar (GArr1 xs) s = GArr1 (map (\<lambda>v. ar_div ar v s) xs)"
| "array_div_gen ar (GArr2 rows) s = GArr2 (map (map (\<lambda>v. ar_div ar v s)) rows)"

text \<open>The \<^verbatim>\<open>try\<close> block of \<^verbatim>\<open>calc_profile\<close>, as \<^const>\<open>gauss_components\<close>.\<close>

definition gauss_components_gen ::
  "'a arith \<Rightarrow> 'a gparam \<Rightarrow> 'a gparam \<Rightarrow> 'a gparam \<Rightarrow> 'a list \<Rightarrow> error + 'a garray" where
  "gauss_components_gen ar a p w ph =
     (case newaxis_col_gen a of
        Inl e \<Rightarrow> Inl e
      | Inr av \<Rightarrow>
         (case newaxis_col_gen p of
            Inl e \<Rightarrow> Inl e
          | Inr pv \<Rightarrow>
             (case newaxis_col_gen w of
                Inl e \<Rightarrow> Inl e
              | Inr wv \<Rightarrow>
                 (case broadcast_col_gen (\<lambda>v s. ar_div ar v s)
                         (map (\<lambda>pk. map (\<lambda>x. ar_sub ar x pk) ph) pv) wv of
                    Inl e \<Rightarrow> Inl e
                  | Inr q \<Rightarrow>
                     (case broadcast_col_gen (\<lambda>v s. ar_mul ar s v)
                             (map (map (\<lambda>v. ar_exp ar (ar_mul ar (ar_neghalf ar) (ar_square ar v))))
                                q) av of
                        Inl e \<Rightarrow> Inl e
                      | Inr g \<Rightarrow> Inr (GArr2 g))))))"

text \<open>
  \<^verbatim>\<open>np.amax(profile)\<close> for the value of the \<^verbatim>\<open>try\<close> block: the raw maximum that the
  code computes when no \<^verbatim>\<open>_Amax\<close> is cached.
\<close>

definition raw_max_gen :: "'a arith \<Rightarrow> 'a gportrait \<Rightarrow> 'a list \<Rightarrow> error + 'a" where
  "raw_max_gen ar self phases =
     (case gauss_components_gen ar (gp_amp self) (gp_peak self) (gp_width self) phases of
        Inl e \<Rightarrow> Inl e
      | Inr prof \<Rightarrow> amax_gen ar prof)"

text \<open>\<^verbatim>\<open>calc_profile\<close>, as \<^const>\<open>calc_profile\<close>.\<close>

definition calc_profile_gen ::
  "'a arith \<Rightarrow> 'a gportrait \<Rightarrow> 'a list \<Rightarrow> (error + 'a garray) \<times> 'a gportrait" where
  "calc_profile_gen ar self phases =
     (case gauss_components_gen ar (gp_amp self) (gp_peak self) (gp_width self) phases of
        Inl e \<Rightarrow> (Inl (if e = TypeError then UnboundLocalError else e), self)
      | Inr prof \<Rightarrow>
          (case (case gp_Amax self of Some A \<Rightarrow> Inr A | None \<Rightarrow> amax_gen ar prof) of
             Inl e \<Rightarrow> (Inl e, self)
           | Inr A \<Rightarrow> (Inr (array_div_gen ar prof A), self)))"

text \<open>The instance and the arrays of the real-valued model, read in the general one.\<close>

fun param_gen :: "param \<Rightarrow> real gparam" where
  "param_gen (Scalar v) = GScalar v"
| "param_gen (PySeq xs) = GSeq xs"
| "param_gen (NdArray xs) = GArray xs"

fun ndarray_gen :: "ndarray \<Rightarrow> real garray" where
  "ndarray_gen (Arr1 xs) = GArr1 xs"
| "ndarray_gen (Arr2 rows) = GArr2 rows"

definition portrait_gen :: "GaussPortrait \<Rightarrow> real gportrait" where
  "portrait_gen self =
     \<lparr>gp_peak = param_gen (priv_peak self), gp_width = param_gen (priv_width self),
      gp_amp = param_gen (priv_amp self), gp_profile = map_option ndarray_gen (priv_profile self),
      gp_Amax = priv_Amax self\<rparr>"

text \<open>
  An arithmetic without rounding error, to evaluate the general evaluator at finite
  operands where no operation overflows, underflows or meets a special value. On an
  infinity or a NaN the lifted operations return a NaN; that is not IEEE's rule in every
  case, and they are never applied to such operands below. Division and maximum are the
  IEEE operations, with the rounding that keeps every exact quotient.
\<close>

definition fl_exact1 :: "(real \<Rightarrow> real) \<Rightarrow> fl \<Rightarrow> fl" where
  "fl_exact1 f a = (if fl_isnan a \<or> fl_isinf a then NaN else Fin (f (fl_val a)))"

definition fl_exact2 :: "(real \<Rightarrow> real \<Rightarrow> real) \<Rightarrow> fl \<Rightarrow> fl \<Rightarrow> fl" where
  "fl_exact2 f a b =
     (if fl_isnan a \<or> fl_isinf a \<or> fl_isnan b \<or> fl_isinf b then NaN
      else Fin (f (fl_val a) (fl_val b)))"

definition exact_arith :: "fl arith" where
  "exact_arith =
     \<lparr>ar_sub = fl_exact2 (\<lambda>x y. x - y), ar_div = fl_div Fin,
      ar_square = fl_exact1 (\<lambda>x. x\<^sup>2), ar_neghalf = Fin (- (1/2)),
      ar_mul = fl_exact2 (\<lambda>x y. x * y), ar_exp = fl_exact1 exp, ar_max = fl_maximum\<rparr>"

section \<open>Facts about the array operations\<close>

lemma fold_max_Max: "fold max vs (v::real) = Max (set (v # vs))"
  by (simp only: Max.set_eq_fold)

lemma amax_Arr2_eq: "concat rows \<noteq> [] \<Longrightarrow> amax (Arr2 rows) = Inr (Max (set (concat rows)))"
  by (cases "concat rows") (simp_all add: fold_max_Max del: set_concat)

lemma amax_Arr2_InrD:
  assumes "amax (Arr2 rows) = Inr m"
  shows "concat rows \<noteq> [] \<and> m = Max (set (concat rows))"
proof (cases "concat rows")
  case Nil
  with assms show ?thesis by simp
next
  case (Cons v vs)
  then have ne: "concat rows \<noteq> []" by simp
  from amax_Arr2_eq [OF ne] assms show ?thesis using ne by simp
qed

lemma Max_div_pos:
  fixes xs :: "real list"
  assumes "xs \<noteq> []" and "0 < m"
  shows "Max (set (map (\<lambda>v. v / m) xs)) = Max (set xs) / m"
proof -
  have "mono (\<lambda>v::real. v / m)"
    using assms(2) by (intro monoI) (simp add: divide_right_mono)
  from mono_Max_commute [OF this, of "set xs"] assms(1)
  show ?thesis by simp
qed

text \<open>An array with a positive maximum, divided by that maximum, has maximum 1.\<close>

lemma amax_array_div_self:
  assumes "amax (Arr2 rows) = Inr m" and "0 < m"
  shows "amax (array_div (Arr2 rows) m) = Inr 1"
proof -
  from amax_Arr2_InrD [OF assms(1)]
  have ne: "concat rows \<noteq> []" and m: "m = Max (set (concat rows))" by simp_all
  have c: "concat (map (map (\<lambda>v. v / m)) rows) = map (\<lambda>v. v / m) (concat rows)"
    by (simp add: map_concat)
  have ne': "concat (map (map (\<lambda>v. v / m)) rows) \<noteq> []"
    using ne unfolding c by simp
  have "amax (array_div (Arr2 rows) m) = Inr (Max (set (map (\<lambda>v. v / m) (concat rows))))"
    using amax_Arr2_eq [OF ne'] unfolding c by simp
  also have "Max (set (map (\<lambda>v. v / m) (concat rows))) = Max (set (concat rows)) / m"
    by (rule Max_div_pos [OF ne assms(2)])
  also have "\<dots> = 1" using m assms(2) by simp
  finally show ?thesis .
qed

lemma array_div_one: "array_div a 1 = a"
  by (cases a) (simp_all add: map_idI)

section \<open>Facts about the evaluator\<close>

text \<open>
  With three arrays of one length the \<^verbatim>\<open>try\<close> block succeeds: row \<open>i\<close> of its value
  is component \<open>i\<close> over the query phases.
\<close>

lemma gauss_components_arrays:
  assumes "length p = length a" and "length w = length a"
  shows "gauss_components (NdArray a) (NdArray p) (NdArray w) ph =
     Inr (Arr2 (map (\<lambda>(ai, pi, wi). map (gauss_kernel ai pi wi) ph) (zip a (zip p w))))"
proof -
  have "map2 (\<lambda>r c. map (\<lambda>v. c * v) r)
          (map (map (\<lambda>v. exp (- (1/2) * v\<^sup>2)))
             (map2 (\<lambda>r c. map (\<lambda>v. v / c) r) (map (\<lambda>pk. map (\<lambda>x. x - pk) ph) p) w)) a
        = map (\<lambda>(ai, pi, wi). map (gauss_kernel ai pi wi) ph) (zip a (zip p w))"
    using assms by (intro nth_equalityI) (simp_all add: gauss_kernel_def)
  then show ?thesis
    using assms by (simp add: gauss_components_def broadcast_col_def)
qed

lemma gauss_components_single:
  "gauss_components (NdArray [a]) (NdArray [p]) (NdArray [w]) ph =
     Inr (Arr2 [map (gauss_kernel a p w) ph])"
  using gauss_components_arrays [of "[p]" "[a]" "[w]" ph] by simp

text \<open>The value of the \<^verbatim>\<open>try\<close> block is never a one-dimensional array.\<close>

lemma gauss_components_two_dimensional:
  "gauss_components a p w ph \<noteq> Inr (Arr1 ys)"
  by (simp add: gauss_components_def split: sum.splits)

lemma calc_profile_two_dimensional:
  "fst (calc_profile self phases) \<noteq> Inr (Arr1 ys)"
proof (cases "gauss_components (amp self) (peak self) (width self) phases")
  case (Inl e)
  then show ?thesis by (simp add: calc_profile_def)
next
  case (Inr prof)
  with gauss_components_two_dimensional [of "amp self" "peak self" "width self" phases]
  obtain rows where "prof = Arr2 rows" by (cases prof) auto
  with Inr show ?thesis by (simp add: calc_profile_def split: sum.splits)
qed

lemma calc_profile_fresh:
  assumes "priv_Amax self = None"
    and "gauss_components (priv_amp self) (priv_peak self) (priv_width self) phases = Inr (Arr2 rows)"
    and "amax (Arr2 rows) = Inr m"
  shows "calc_profile self phases = (Inr (array_div (Arr2 rows) m), self)"
  using assms by (simp add: calc_profile_def amp_def peak_def width_def hasattr_Amax_def)

lemma calc_profile_cached:
  assumes "priv_Amax self = Some A"
    and "gauss_components (priv_amp self) (priv_peak self) (priv_width self) phases = Inr (Arr2 rows)"
  shows "calc_profile self phases = (Inr (array_div (Arr2 rows) A), self)"
  using assms by (simp add: calc_profile_def amp_def peak_def width_def hasattr_Amax_def Amax_def)

lemma gauss_kernel_le:
  assumes "0 \<le> a"
  shows "gauss_kernel a p w x \<le> a"
proof -
  have "exp (- (1/2) * ((x - p) / w)\<^sup>2) \<le> 1" by simp
  with assms have "a * exp (- (1/2) * ((x - p) / w)\<^sup>2) \<le> a * 1"
    by (rule mult_left_mono [rotated])
  then show ?thesis by (simp add: gauss_kernel_def)
qed

lemma gauss_kernel_at_peak: "gauss_kernel a p w p = a"
  by (simp add: gauss_kernel_def)

lemma amax_single_component:
  assumes "0 \<le> a" and "p \<in> set ph"
  shows "amax (Arr2 [map (gauss_kernel a p w) ph]) = Inr a"
proof -
  have ne: "concat [map (gauss_kernel a p w) ph] \<noteq> []"
    using assms(2) by auto
  have "Max (set (map (gauss_kernel a p w) ph)) = a"
  proof (rule Max_eqI)
    show "finite (set (map (gauss_kernel a p w) ph))" by simp
    show "\<And>y. y \<in> set (map (gauss_kernel a p w) ph) \<Longrightarrow> y \<le> a"
      using gauss_kernel_le [OF assms(1)] by auto
    show "a \<in> set (map (gauss_kernel a p w) ph)"
      using assms(2) gauss_kernel_at_peak [of a p w] by force
  qed
  with amax_Arr2_eq [OF ne] show ?thesis by simp
qed

section \<open>Facts about init_profile\<close>

lemma init_profile_step:
  assumes "calc_profile self (arange_over N) = (Inr prof, self)" and "amax prof = Inr m"
  shows "init_profile self N =
    (Inr (), self\<lparr>priv_profile := Some (array_div prof m), priv_Amax := Some m\<rparr>)"
  using assms by (simp add: init_profile_def Amax_def)

text \<open>
  The first call on an instance: \<^const>\<open>calc_profile\<close> has already divided by the raw
  maximum \<open>m\<close>, so the maximum that \<^const>\<open>init_profile\<close> records is 1.
\<close>

lemma init_profile_fresh:
  assumes "priv_Amax self = None"
    and "gauss_components (priv_amp self) (priv_peak self) (priv_width self) (arange_over N)
           = Inr (Arr2 rows)"
    and "amax (Arr2 rows) = Inr m" and "0 < m"
  shows "init_profile self N =
    (Inr (), self\<lparr>priv_profile := Some (array_div (Arr2 rows) m), priv_Amax := Some 1\<rparr>)"
proof -
  have c: "calc_profile self (arange_over N) = (Inr (array_div (Arr2 rows) m), self)"
    by (rule calc_profile_fresh [OF assms(1-3)])
  have a: "amax (array_div (Arr2 rows) m) = Inr 1"
    by (rule amax_array_div_self [OF assms(3,4)])
  from init_profile_step [OF c a] show ?thesis by (simp add: array_div_one)
qed

text \<open>
  A call on an instance whose cached maximum is 1: \<^const>\<open>calc_profile\<close> divides by 1,
  so this call records the raw maximum.
\<close>

lemma init_profile_again:
  assumes "priv_Amax self = Some 1"
    and "gauss_components (priv_amp self) (priv_peak self) (priv_width self) (arange_over N)
           = Inr (Arr2 rows)"
    and "amax (Arr2 rows) = Inr m"
  shows "init_profile self N =
    (Inr (), self\<lparr>priv_profile := Some (array_div (Arr2 rows) m), priv_Amax := Some m\<rparr>)"
proof -
  have c: "calc_profile self (arange_over N) = (Inr (Arr2 rows), self)"
    using calc_profile_cached [OF assms(1,2)] by (simp only: array_div_one)
  from init_profile_step [OF c assms(3)] show ?thesis .
qed

lemma half_on_grid_256: "1/2 \<in> set (arange_over 256)"
proof -
  have "(128::nat) \<in> set [0..<nat 256]" by simp
  then have "real 128 / real_of_int 256 \<in> set (arange_over 256)"
    unfolding arange_over_def set_map by (rule imageI)
  then show ?thesis by simp
qed

section \<open>Facts about floating-point comparison, maximum and division\<close>

lemma fl_le_not_nan: "fl_le a b \<Longrightarrow> \<not> fl_isnan a \<and> \<not> fl_isnan b"
  by (simp add: fl_le_def split: if_splits)

lemma fl_le_refl: "\<not> fl_isnan a \<Longrightarrow> fl_le a a"
  by (cases a) (simp_all add: fl_le_def)

lemma fl_le_trans: "fl_le a b \<Longrightarrow> fl_le b c \<Longrightarrow> fl_le a c"
  by (cases a; cases b; cases c) (simp_all add: fl_le_def)

lemma fl_le_total: "\<not> fl_isnan a \<Longrightarrow> \<not> fl_isnan b \<Longrightarrow> fl_le a b \<or> fl_le b a"
  by (cases a; cases b) (auto simp: fl_le_def)

lemma fl_le_Fin_antisym: "fl_le a (Fin r) \<Longrightarrow> fl_le (Fin r) a \<Longrightarrow> r \<noteq> 0 \<Longrightarrow> a = Fin r"
  by (cases a) (simp_all add: fl_le_def)

lemma fl_maximum_cases:
  "fl_maximum a b = a \<or> fl_maximum a b = b"
  by (simp add: fl_maximum_def)

lemma fl_maximum_not_nan:
  assumes "\<not> fl_isnan (fl_maximum a b)"
  shows "\<not> fl_isnan a \<and> \<not> fl_isnan b \<and> fl_le a (fl_maximum a b) \<and> fl_le b (fl_maximum a b)"
proof -
  have a: "\<not> fl_isnan a" using assms by (auto simp: fl_maximum_def split: if_splits)
  have b: "\<not> fl_isnan b"
    using assms a fl_le_not_nan [of b a] by (auto simp: fl_maximum_def split: if_splits)
  show ?thesis
  proof (cases "fl_le b a")
    case True
    then show ?thesis using a b by (simp add: fl_maximum_def fl_le_refl)
  next
    case False
    with fl_le_total [OF a b] have "fl_le a b" by blast
    with False show ?thesis using a b by (simp add: fl_maximum_def fl_le_refl)
  qed
qed

text \<open>
  The reduction by \<^const>\<open>fl_maximum\<close>: a result that is no NaN is an entry, no entry is a
  NaN, and every entry is below it.
\<close>

lemma fold_fl_maximum:
  assumes "fold (\<lambda>x acc. fl_maximum acc x) vs v = m" and "\<not> fl_isnan m"
  shows "m \<in> set (v # vs) \<and> (\<forall>x \<in> set (v # vs). fl_le x m)"
  using assms
proof (induction vs arbitrary: v)
  case Nil
  then show ?case by (simp add: fl_le_refl)
next
  case (Cons x xs)
  from Cons.prems have f: "fold (\<lambda>x acc. fl_maximum acc x) xs (fl_maximum v x) = m" by simp
  from Cons.IH [OF f Cons.prems(2)]
  have mem: "m \<in> set (fl_maximum v x # xs)"
    and le: "\<forall>y \<in> set (fl_maximum v x # xs). fl_le y m" by simp_all
  from le have lm: "fl_le (fl_maximum v x) m" by simp
  then have "\<not> fl_isnan (fl_maximum v x)" using fl_le_not_nan by blast
  from fl_maximum_not_nan [OF this]
  have "fl_le v (fl_maximum v x)" and "fl_le x (fl_maximum v x)" by simp_all
  with lm have "fl_le v m" and "fl_le x m" using fl_le_trans by blast+
  moreover from mem fl_maximum_cases [of v x] have "m \<in> set (v # x # xs)" by auto
  ultimately show ?case using le by simp
qed

text \<open>Conversely: entries that are no NaN and lie below an entry \<open>Fin r\<close> reduce to it.\<close>

lemma fold_fl_maximum_is:
  assumes "Fin r \<in> set (v # vs)" and "\<forall>x \<in> set (v # vs). fl_le x (Fin r)" and "r \<noteq> 0"
  shows "fold (\<lambda>x acc. fl_maximum acc x) vs v = Fin r"
  using assms
proof (induction vs arbitrary: v)
  case Nil
  then show ?case by simp
next
  case (Cons x xs)
  have vle: "fl_le v (Fin r)" and xle: "fl_le x (Fin r)" using Cons.prems(2) by simp_all
  have le': "fl_le (fl_maximum v x) (Fin r)"
    using fl_maximum_cases [of v x] vle xle by auto
  have mem': "Fin r \<in> set (fl_maximum v x # xs)"
  proof (cases "Fin r \<in> set xs")
    case True
    then show ?thesis by simp
  next
    case False
    with Cons.prems(1) have vx: "v = Fin r \<or> x = Fin r" by auto
    have nv: "\<not> fl_isnan v" and nx: "\<not> fl_isnan x"
      using vle xle fl_le_not_nan by blast+
    have "\<not> fl_isnan (fl_maximum v x)" using le' fl_le_not_nan by blast
    from fl_maximum_not_nan [OF this]
    have "fl_le v (fl_maximum v x)" and "fl_le x (fl_maximum v x)" by simp_all
    with vx have "fl_le (Fin r) (fl_maximum v x)" by auto
    from fl_le_Fin_antisym [OF le' this Cons.prems(3)] have "fl_maximum v x = Fin r" .
    then show ?thesis by simp
  qed
  have "\<forall>y \<in> set (fl_maximum v x # xs). fl_le y (Fin r)"
    using le' Cons.prems(2) by simp
  from Cons.IH [OF mem' this Cons.prems(3)] show ?case by simp
qed

text \<open>
  Division by a positive finite number, under a rounding that is monotone and exact at 1:
  an entry below the divisor has a quotient below 1, and the divisor itself has the
  quotient 1.
\<close>

lemma fl_div_le_one:
  assumes one: "rnd 1 = Fin 1"
    and mono: "\<And>x y. x \<le> y \<Longrightarrow> fl_le (rnd x) (rnd y)"
    and "0 < r" and "fl_le v (Fin r)"
  shows "fl_le (fl_div rnd v (Fin r)) (Fin 1)"
proof (cases v)
  case (Fin a)
  with assms(4) have ar: "a \<le> r" by (simp add: fl_le_def)
  show ?thesis
  proof (cases "a = 0")
    case True
    then show ?thesis using Fin assms(3) by (simp add: fl_div_def fl_zero_def fl_le_def)
  next
    case False
    have "a / r \<le> 1" using ar assms(3) by simp
    from mono [OF this] have "fl_le (rnd (a / r)) (Fin 1)" by (simp add: one)
    then show ?thesis using Fin False assms(3) by (simp add: fl_div_def)
  qed
next
  case NegZero
  then show ?thesis using assms(3) by (simp add: fl_div_def fl_zero_def fl_le_def)
next
  case PInf
  with assms(4) show ?thesis by (simp add: fl_le_def)
next
  case NInf
  then show ?thesis using assms(3) by (simp add: fl_div_def fl_inf_def fl_le_def)
next
  case NaN
  with assms(4) show ?thesis by (simp add: fl_le_def)
qed

lemma fl_div_self:
  assumes "rnd 1 = Fin 1" and "0 < r"
  shows "fl_div rnd (Fin r) (Fin r) = Fin 1"
  using assms by (simp add: fl_div_def)

text \<open>
  The normalisation of lines 100 and 101 on any two-dimensional array: when
  \<^verbatim>\<open>np.amax\<close> of the array is positive and finite, the quotient array contains 1, all
  its entries are at most 1 (none is a NaN), and \<^verbatim>\<open>np.amax\<close> of it is 1.
\<close>

lemma normalise_by_own_maximum:
  assumes one: "rnd 1 = Fin 1"
    and mono: "\<And>x y. x \<le> y \<Longrightarrow> fl_le (rnd x) (rnd y)"
    and d: "ar_div ar = fl_div rnd" and mx: "ar_max ar = fl_maximum"
    and am: "amax_gen ar (GArr2 rows) = Inr (Fin r)" and pos: "0 < r"
  shows "array_div_gen ar (GArr2 rows) (Fin r) = GArr2 (map (map (\<lambda>v. fl_div rnd v (Fin r))) rows)
    \<and> Fin 1 \<in> set (concat (map (map (\<lambda>v. fl_div rnd v (Fin r))) rows))
    \<and> (\<forall>v \<in> set (concat (map (map (\<lambda>v. fl_div rnd v (Fin r))) rows)). fl_le v (Fin 1))
    \<and> amax_gen ar (GArr2 (map (map (\<lambda>v. fl_div rnd v (Fin r))) rows)) = Inr (Fin 1)"
proof -
  let ?q = "\<lambda>v. fl_div rnd v (Fin r)"
  from am obtain v vs where c: "concat rows = v # vs"
    and f: "fold (\<lambda>x acc. fl_maximum acc x) vs v = Fin r"
    by (cases "concat rows") (simp_all add: mx)
  from fold_fl_maximum [OF f]
  have mem: "Fin r \<in> set (concat rows)" and le: "\<forall>x \<in> set (concat rows). fl_le x (Fin r)"
    unfolding c by simp_all
  have cq: "concat (map (map ?q) rows) = map ?q (concat rows)"
    by (simp add: map_concat)
  have r1: "array_div_gen ar (GArr2 rows) (Fin r) = GArr2 (map (map ?q) rows)"
    by (simp add: d)
  have "?q (Fin r) \<in> set (map ?q (concat rows))" using mem by (simp del: set_concat)
  then have r2: "Fin 1 \<in> set (concat (map (map ?q) rows))"
    unfolding cq using fl_div_self [of rnd r] one pos by simp
  have r3: "\<forall>x \<in> set (concat (map (map ?q) rows)). fl_le x (Fin 1)"
    unfolding cq using le fl_div_le_one [where rnd = rnd and r = r, OF one mono pos]
    by (auto simp del: set_concat)
  have cq2: "concat (map (map ?q) rows) = ?q v # map ?q vs"
    unfolding cq c by simp
  have "fold (\<lambda>x acc. fl_maximum acc x) (map ?q vs) (?q v) = Fin 1"
    by (rule fold_fl_maximum_is) (use r2 r3 in \<open>simp_all add: cq2\<close>)
  then have r4: "amax_gen ar (GArr2 (map (map ?q) rows)) = Inr (Fin 1)"
    by (simp add: cq2 mx)
  from r1 r2 r3 r4 show ?thesis by blast
qed

lemma gauss_components_gen_two_dimensional:
  assumes "gauss_components_gen ar a p w ph = Inr prof"
  obtains rows where "prof = GArr2 rows"
  using assms by (auto simp: gauss_components_gen_def split: sum.splits)

text \<open>
  With exact real arithmetic the general evaluator is the real-valued model of the
  sections above.
\<close>

lemma newaxis_col_gen_real: "newaxis_col_gen (param_gen a) = newaxis_col a"
  by (cases a) simp_all

lemma broadcast_col_gen_real: "broadcast_col_gen f rows col = broadcast_col f rows col"
  by (simp add: broadcast_col_gen_def broadcast_col_def)

lemma gauss_components_gen_real:
  "gauss_components_gen real_arith (param_gen a) (param_gen p) (param_gen w) ph
     = map_sum id ndarray_gen (gauss_components a p w ph)"
  by (simp add: gauss_components_gen_def gauss_components_def newaxis_col_gen_real
      broadcast_col_gen_real real_arith_def split: sum.splits)

lemma real_arith_max: "(\<lambda>x acc. ar_max real_arith acc x) = max"
  by (intro ext) (simp add: real_arith_def max.commute)

lemma amax_gen_real: "amax_gen real_arith (ndarray_gen a) = amax a"
  by (cases a) (simp_all add: real_arith_max cong: list.case_cong)

lemma array_div_gen_real: "array_div_gen real_arith (ndarray_gen a) s = ndarray_gen (array_div a s)"
  by (cases a) (simp_all add: real_arith_def)

lemma calc_profile_gen_real:
  "calc_profile_gen real_arith (portrait_gen self) phases
     = (map_sum id ndarray_gen (fst (calc_profile self phases)), portrait_gen self)"
proof (cases "gauss_components (priv_amp self) (priv_peak self) (priv_width self) phases")
  case (Inl e)
  then show ?thesis
    by (simp add: calc_profile_gen_def calc_profile_def portrait_gen_def gauss_components_gen_real
        amp_def peak_def width_def)
next
  case (Inr prof)
  then show ?thesis
    by (cases "priv_Amax self"; cases "amax prof")
       (simp_all add: calc_profile_gen_def calc_profile_def portrait_gen_def
          gauss_components_gen_real amp_def peak_def width_def hasattr_Amax_def Amax_def
          amax_gen_real array_div_gen_real)
qed

text \<open>
  Whatever the arithmetic, three arrays of one length \<open>N\<close> and \<open>M\<close> phases make the
  \<^verbatim>\<open>try\<close> block return an array of shape (N, M).
\<close>

lemma gauss_components_gen_arrays:
  assumes "length p = length a" and "length w = length a"
  shows "\<exists>rows. gauss_components_gen ar (GArray a) (GArray p) (GArray w) ph = Inr (GArr2 rows)
           \<and> length rows = length a \<and> (\<forall>row \<in> set rows. length row = length ph)"
  using assms
  by (auto simp: gauss_components_gen_def broadcast_col_gen_def set_zip)

section \<open>The claims\<close>

subsection \<open>Querying an instance\<close>

text \<open>
  C1 (the code departs from the claim). The claim: on an instance that was never
  initialised, the query without phases logs one warning and returns \<^verbatim>\<open>None\<close>; on an
  initialised instance it returns the cached profile. The code reads the attribute
  \<^verbatim>\<open>_portrait\<close>, which no class body and no method binds (the cache is \<^verbatim>\<open>_profile\<close>).
  So on every instance, initialised or not, the query without phases raises
  \<^verbatim>\<open>AttributeError\<close>, logs nothing and leaves the instance as it was.
\<close>

theorem call_without_phases_raises:
  "PulsePortrait_call self None warnings = (Inl AttributeError, self, warnings)"
  by (simp add: PulsePortrait_call_def getattr_data_def instance_dict_def
      GaussPortrait_class_data_def PulsePortrait_class_data_def split: option.splits)

text \<open>
  C2 (the code departs from the claim). The claim: the query with a phase sequence reaches
  the evaluator of the one-dimensional \<^verbatim>\<open>GaussPortrait\<close> and returns intensities. The
  code calls \<^verbatim>\<open>self.calc_portrait\<close>; the subclass names its evaluator
  \<^verbatim>\<open>calc_profile\<close>, so the name resolves to the base method: for every instance and
  every phase sequence the query raises \<^verbatim>\<open>NotImplementedError\<close>.
\<close>

theorem call_with_phases_raises:
  "PulsePortrait_call self (Some phases) warnings = (Inl NotImplementedError, self, warnings)"
  by (simp add: PulsePortrait_call_def resolve_method_def GaussPortrait_methods_def
      PulsePortrait_methods_def PulsePortrait_calc_portrait_def)

subsection \<open>Scalar parameters\<close>

text \<open>
  C3 (the code departs from the claim). The claim: with scalar peak, width and amp the
  evaluator computes the single Gaussian and returns, and the default parameters with
  \<^verbatim>\<open>init_profile(256)\<close> cache a profile of length 256 whose entry 128 is 1. The code:
  subscripting a Python number raises \<^verbatim>\<open>TypeError\<close>, and the handler reads the unbound
  local \<^verbatim>\<open>profile\<close>. For all scalar parameters and every phase query the evaluator
  raises \<^verbatim>\<open>UnboundLocalError\<close>, and \<^verbatim>\<open>init_profile(256)\<close> on the default
  parameters raises it too and caches nothing.
\<close>

theorem scalar_parameters_raise:
  "calc_profile (GaussPortrait_init (Scalar p) (Scalar w) (Scalar a)) phases
     = (Inl UnboundLocalError, GaussPortrait_init (Scalar p) (Scalar w) (Scalar a))
   \<and> init_profile GaussPortrait_default 256 = (Inl UnboundLocalError, GaussPortrait_default)
   \<and> profile GaussPortrait_default = Inr PyNone"
  by (simp add: init_profile_def calc_profile_def gauss_components_def GaussPortrait_init_def
      GaussPortrait_default_def amp_def peak_def width_def profile_def getattr_data_def
      instance_dict_def GaussPortrait_class_data_def PulsePortrait_class_data_def)

subsection \<open>Array parameters\<close>

text \<open>
  C4 (the code departs from the claim). The claim: with \<open>N\<close> components and \<open>M\<close> phases
  the evaluator sums over the components and returns a one-dimensional array of length
  \<open>M\<close>. The code never sums: with peaks 0 and 1, widths 1 and amplitudes 1, queried at
  the phases 0 and 1, it returns the two rows \<open>[1, exp(-1/2)]\<close> and \<open>[exp(-1/2), 1]\<close>,
  where the normalised sum is the one-dimensional \<open>[1, 1]\<close>.
\<close>

theorem components_are_not_summed:
  "fst (calc_profile (GaussPortrait_init (NdArray [0, 1]) (NdArray [1, 1]) (NdArray [1, 1])) [0, 1])
     = Inr (Arr2 [[1, exp (- (1/2))], [exp (- (1/2)), 1]])
   \<and> array_div (Arr1 (spec_component_sum [1, 1] [0, 1] [1, 1] [0, 1])) (1 + exp (- (1/2)))
     = Arr1 [1, 1]"
proof -
  have pos: "1 + exp (- (1/2) :: real) \<noteq> 0"
    using exp_gt_zero [of "- (1/2) :: real"] by linarith
  have "fst (calc_profile (GaussPortrait_init (NdArray [0, 1]) (NdArray [1, 1]) (NdArray [1, 1])) [0, 1])
     = Inr (Arr2 [[1, exp (- (1/2))], [exp (- (1/2)), 1]])"
    by (simp add: calc_profile_def gauss_components_def GaussPortrait_init_def amp_def peak_def
        width_def broadcast_col_def hasattr_Amax_def max_def)
  moreover have "array_div (Arr1 (spec_component_sum [1, 1] [0, 1] [1, 1] [0, 1])) (1 + exp (- (1/2)))
     = Arr1 [1, 1]"
    using pos by (simp add: spec_component_sum_def gauss_kernel_def add.commute)
  ultimately show ?thesis by simp
qed

subsection \<open>Initialising the canonical profile\<close>

text \<open>
  C5 (the code departs from the claim). The claim: after the first \<^verbatim>\<open>init_profile\<close> the
  cached \<^verbatim>\<open>Amax\<close> is the maximum of the raw intensities over the grid. The code takes the
  maximum of what \<^verbatim>\<open>calc_profile\<close> returned, which is normalised already. With one
  component of peak 1/2, width 1/20 and amplitude 2 and \<^verbatim>\<open>Nphase = 2\<close>: the raw array
  is \<open>[[2 exp(-50), 2]]\<close> with maximum 2, and the instance caches \<^verbatim>\<open>Amax = 1\<close> with
  the profile \<open>[[exp(-50), 1]]\<close>.
\<close>

theorem init_profile_Amax_not_raw_max:
  "gauss_components (NdArray [2]) (NdArray [1/2]) (NdArray [1/20]) (arange_over 2)
      = Inr (Arr2 [[2 * exp (- 50), 2]])
   \<and> amax (Arr2 [[2 * exp (- 50), 2]]) = Inr 2
   \<and> init_profile (GaussPortrait_init (NdArray [1/2]) (NdArray [1/20]) (NdArray [2])) 2
      = (Inr (), \<lparr>priv_peak = NdArray [1/2], priv_width = NdArray [1/20], priv_amp = NdArray [2],
                  priv_profile = Some (Arr2 [[exp (- 50), 1]]), priv_Amax = Some 1\<rparr>)"
proof -
  have grid: "arange_over 2 = [0, 1/2]"
    by (simp add: arange_over_def upt_rec numeral_2_eq_2)
  have g: "gauss_components (NdArray [2]) (NdArray [1/2]) (NdArray [1/20]) (arange_over 2)
      = Inr (Arr2 [[2 * exp (- 50), 2]])"
    unfolding grid by (simp add: gauss_components_def broadcast_col_def power2_eq_square)
  have m: "amax (Arr2 [[2 * exp (- 50), 2]]) = Inr 2"
    by (simp add: max_def)
  have i: "init_profile (GaussPortrait_init (NdArray [1/2]) (NdArray [1/20]) (NdArray [2])) 2
      = (Inr (), \<lparr>priv_peak = NdArray [1/2], priv_width = NdArray [1/20], priv_amp = NdArray [2],
                  priv_profile = Some (Arr2 [[exp (- 50), 1]]), priv_Amax = Some 1\<rparr>)"
    using init_profile_fresh [of "GaussPortrait_init (NdArray [1/2]) (NdArray [1/20]) (NdArray [2])"
        2 "[[2 * exp (- 50), 2]]" 2] g m
    by (simp add: GaussPortrait_init_def)
  from g m i show ?thesis by simp
qed

text \<open>
  C6 (the code departs from the claim). The claim: two calls of \<^verbatim>\<open>init_profile(256)\<close> in
  a row leave the same cached profile and the same \<^verbatim>\<open>Amax\<close>. With one component of peak
  1/2, width 1/20 and amplitude 2, the first call caches \<^verbatim>\<open>Amax = 1\<close> and the second
  caches \<^verbatim>\<open>Amax = 2\<close>; the cached profile is the same after both.
\<close>

theorem init_profile_twice_Amax:
  "priv_Amax (snd (init_profile
      (GaussPortrait_init (NdArray [1/2]) (NdArray [1/20]) (NdArray [2])) 256)) = Some 1
   \<and> priv_Amax (snd (init_profile (snd (init_profile
      (GaussPortrait_init (NdArray [1/2]) (NdArray [1/20]) (NdArray [2])) 256)) 256)) = Some 2
   \<and> priv_profile (snd (init_profile (snd (init_profile
      (GaussPortrait_init (NdArray [1/2]) (NdArray [1/20]) (NdArray [2])) 256)) 256))
     = priv_profile (snd (init_profile
      (GaussPortrait_init (NdArray [1/2]) (NdArray [1/20]) (NdArray [2])) 256))"
proof -
  define s where "s = GaussPortrait_init (NdArray [1/2]) (NdArray [1/20]) (NdArray [2])"
  define rows where "rows = [map (gauss_kernel 2 (1/2) (1/20)) (arange_over 256)]"
  have f: "priv_Amax s = None" by (simp add: s_def GaussPortrait_init_def)
  have g: "gauss_components (priv_amp s) (priv_peak s) (priv_width s) (arange_over 256)
             = Inr (Arr2 rows)"
    unfolding rows_def s_def by (simp add: GaussPortrait_init_def gauss_components_single)
  have m: "amax (Arr2 rows) = Inr 2"
    unfolding rows_def by (rule amax_single_component [OF _ half_on_grid_256]) simp
  have i1: "init_profile s 256 =
      (Inr (), s\<lparr>priv_profile := Some (array_div (Arr2 rows) 2), priv_Amax := Some 1\<rparr>)"
    by (rule init_profile_fresh [OF f g m]) simp
  define s' where "s' = s\<lparr>priv_profile := Some (array_div (Arr2 rows) 2), priv_Amax := Some 1\<rparr>"
  have f': "priv_Amax s' = Some 1" by (simp add: s'_def)
  have g': "gauss_components (priv_amp s') (priv_peak s') (priv_width s') (arange_over 256)
              = Inr (Arr2 rows)"
    using g by (simp add: s'_def)
  have i2: "init_profile s' 256 =
      (Inr (), s'\<lparr>priv_profile := Some (array_div (Arr2 rows) 2), priv_Amax := Some 2\<rparr>)"
    by (rule init_profile_again [OF f' g' m])
  show ?thesis
    unfolding s_def [symmetric] i1 snd_conv s'_def [symmetric] i2 by (simp add: s'_def)
qed

text \<open>
  C7 (the code departs from the claim). The claim: for every valid parameter set and every
  \<^verbatim>\<open>Nphase >= 1\<close> the profile cached by \<^verbatim>\<open>init_profile\<close> has maximum 1. Scalars are
  the constructor's defaults and Python lists are the specification's own example of
  several components; with either form \<^verbatim>\<open>init_profile\<close> raises \<^verbatim>\<open>UnboundLocalError\<close>
  for every \<^verbatim>\<open>Nphase\<close> and caches no profile.
\<close>

theorem init_profile_raises_without_arrays:
  "init_profile (GaussPortrait_init (Scalar p) (Scalar w) (Scalar a)) Nphase
     = (Inl UnboundLocalError, GaussPortrait_init (Scalar p) (Scalar w) (Scalar a))
   \<and> init_profile (GaussPortrait_init (PySeq ps) (PySeq ws) (PySeq amps)) Nphase
     = (Inl UnboundLocalError, GaussPortrait_init (PySeq ps) (PySeq ws) (PySeq amps))
   \<and> priv_profile (GaussPortrait_init (Scalar p) (Scalar w) (Scalar a)) = None
   \<and> priv_profile (GaussPortrait_init (PySeq ps) (PySeq ws) (PySeq amps)) = None"
  by (simp add: init_profile_def calc_profile_def gauss_components_def GaussPortrait_init_def
      amp_def peak_def width_def)

subsection \<open>Not implemented\<close>

text \<open>
  C8. \<^verbatim>\<open>calc_portrait\<close> of the base class raises \<^verbatim>\<open>NotImplementedError\<close> for every
  instance and phase argument, and so do the constructor of the two-dimensional
  \<^verbatim>\<open>GaussPortrait\<close> and the constructor of \<^verbatim>\<open>UserPortrait\<close>, for every choice of their
  arguments. No handler stands between the \<^verbatim>\<open>raise\<close> and the caller: the error is the
  result of the call.
\<close>

theorem not_implemented_raised:
  "fst (PulsePortrait_calc_portrait self phases) = Inl NotImplementedError
   \<and> GaussPortrait2D_init peak0 width0 amp0 Nphase freqs = Inl NotImplementedError
   \<and> UserPortrait_init u = Inl NotImplementedError"
  by (simp add: PulsePortrait_calc_portrait_def GaussPortrait2D_init_def UserPortrait_init_def)

subsection \<open>What the evaluator leaves alone\<close>

text \<open>
  C9. \<^verbatim>\<open>calc_profile\<close> leaves the instance as it was, whatever the phase query and
  whether it returns or raises: peak, width, amp, the cached profile and the cached
  \<^verbatim>\<open>Amax\<close> are the same before and after. Neither does the base evaluator nor the query
  operation write to the instance; of the methods, only \<^verbatim>\<open>init_profile\<close> assigns the
  cached profile and \<^verbatim>\<open>Amax\<close>.
\<close>

theorem calc_profile_frame:
  "snd (calc_profile self phases) = self
   \<and> snd (PulsePortrait_calc_portrait self phases) = self
   \<and> fst (snd (PulsePortrait_call self query warnings)) = self"
proof -
  have "snd (calc_profile self phases) = self"
    by (simp add: calc_profile_def split: sum.splits)
  moreover have "snd (PulsePortrait_calc_portrait self phases) = self"
    by (simp add: PulsePortrait_calc_portrait_def)
  moreover have "fst (snd (PulsePortrait_call self query warnings)) = self"
    by (cases query)
       (simp_all add: PulsePortrait_call_def resolve_method_def GaussPortrait_methods_def
          PulsePortrait_methods_def PulsePortrait_calc_portrait_def split: sum.splits)
  ultimately show ?thesis by simp
qed

subsection \<open>Normalisation by the array's own maximum\<close>

text \<open>
  When the raw maximum is a zero (every Gaussian has underflowed, say), the quotient
  array contains a NaN: the code and the model agree that the result is not normalised.
\<close>

lemma calc_profile_gen_zero_maximum:
  assumes "ar_div ar = fl_div rnd" and "ar_max ar = fl_maximum"
    and "gp_Amax self = None"
    and "gauss_components_gen ar (gp_amp self) (gp_peak self) (gp_width self) phases
           = Inr (GArr2 rows)"
    and "amax_gen ar (GArr2 rows) = Inr (Fin 0)"
  shows "\<exists>res. calc_profile_gen ar self phases = (Inr (GArr2 res), self)
           \<and> NaN \<in> set (concat res)"
proof -
  from assms(5) obtain v vs where c: "concat rows = v # vs"
    and f: "fold (\<lambda>x acc. fl_maximum acc x) vs v = Fin 0"
    by (cases "concat rows") (simp_all add: assms(2))
  from fold_fl_maximum [OF f] have mem: "Fin 0 \<in> set (concat rows)"
    unfolding c by simp
  have q: "fl_div rnd (Fin 0) (Fin 0) = NaN" by (simp add: fl_div_def)
  have "fl_div rnd (Fin 0) (Fin 0) \<in> set (map (\<lambda>v. fl_div rnd v (Fin 0)) (concat rows))"
    using mem by (simp del: set_concat)
  then have "NaN \<in> set (concat (map (map (\<lambda>v. fl_div rnd v (Fin 0))) rows))"
    unfolding q by (simp add: map_concat del: set_concat)
  moreover have "calc_profile_gen ar self phases
      = (Inr (GArr2 (map (map (\<lambda>v. fl_div rnd v (Fin 0))) rows)), self)"
    using assms by (simp add: calc_profile_gen_def)
  ultimately show ?thesis by blast
qed

text \<open>
  C10. Numbers are IEEE data, and the rounding of a quotient is any function that is
  monotone and keeps 1 (round-to-nearest is one). Take an instance without a cached
  \<^verbatim>\<open>Amax\<close>, array parameters of one length and a non-empty phase query, and let the
  raw maximum, \<^verbatim>\<open>np.amax\<close> of the array that the \<^verbatim>\<open>try\<close> block computes, be finite
  and positive. Then \<^verbatim>\<open>calc_profile\<close> returns that array divided entry by entry by its
  own maximum; the returned array contains 1, each of its entries is at most 1 and none
  is a NaN, so its maximum is exactly 1. Nothing is assumed about subtraction,
  multiplication, squaring and \<^verbatim>\<open>np.exp\<close>.
\<close>

theorem calc_profile_ieee_self_normalized:
  assumes one: "rnd 1 = Fin 1"
    and mono: "\<And>x y. x \<le> y \<Longrightarrow> fl_le (rnd x) (rnd y)"
    and d: "ar_div ar = fl_div rnd" and mx: "ar_max ar = fl_maximum"
    and fresh: "gp_Amax self = None"
    and "gp_amp self = GArray a" and "gp_peak self = GArray p" and "gp_width self = GArray w"
    and "length p = length a" and "length w = length a"
    and "phases \<noteq> []"
    and rm: "raw_max_gen ar self phases = Inr (Fin r)" and pos: "0 < r"
  shows "\<exists>raw.
      gauss_components_gen ar (gp_amp self) (gp_peak self) (gp_width self) phases
        = Inr (GArr2 raw)
      \<and> calc_profile_gen ar self phases
        = (Inr (GArr2 (map (map (\<lambda>v. fl_div rnd v (Fin r))) raw)), self)
      \<and> Fin 1 \<in> set (concat (map (map (\<lambda>v. fl_div rnd v (Fin r))) raw))
      \<and> (\<forall>v \<in> set (concat (map (map (\<lambda>v. fl_div rnd v (Fin r))) raw)). fl_le v (Fin 1))
      \<and> amax_gen ar (GArr2 (map (map (\<lambda>v. fl_div rnd v (Fin r))) raw)) = Inr (Fin 1)"
proof -
  from rm obtain prof where
    g0: "gauss_components_gen ar (gp_amp self) (gp_peak self) (gp_width self) phases = Inr prof"
    and a0: "amax_gen ar prof = Inr (Fin r)"
    by (auto simp: raw_max_gen_def split: sum.splits)
  from g0 obtain raw where p: "prof = GArr2 raw"
    by (rule gauss_components_gen_two_dimensional)
  have g: "gauss_components_gen ar (gp_amp self) (gp_peak self) (gp_width self) phases
             = Inr (GArr2 raw)"
    using g0 p by simp
  have am: "amax_gen ar (GArr2 raw) = Inr (Fin r)" using a0 p by simp
  note n = normalise_by_own_maximum [where rnd = rnd, OF one mono d mx am pos]
  have c: "calc_profile_gen ar self phases
      = (Inr (GArr2 (map (map (\<lambda>v. fl_div rnd v (Fin r))) raw)), self)"
    using g am fresh n by (simp add: calc_profile_gen_def)
  from g c n show ?thesis by blast
qed

theorem calc_profile_ieee_self_normalized_witness:
  "raw_max_gen exact_arith
      \<lparr>gp_peak = GArray [Fin 0], gp_width = GArray [Fin 1], gp_amp = GArray [Fin 2],
       gp_profile = None, gp_Amax = None\<rparr> [Fin 0, Fin 1] = Inr (Fin 2)
   \<and> calc_profile_gen exact_arith
      \<lparr>gp_peak = GArray [Fin 0], gp_width = GArray [Fin 1], gp_amp = GArray [Fin 2],
       gp_profile = None, gp_Amax = None\<rparr> [Fin 0, Fin 1]
     = (Inr (GArr2 [[Fin 1, Fin (exp (- (1/2)))]]),
        \<lparr>gp_peak = GArray [Fin 0], gp_width = GArray [Fin 1], gp_amp = GArray [Fin 2],
         gp_profile = None, gp_Amax = None\<rparr>)
   \<and> amax_gen exact_arith (GArr2 [[Fin 1, Fin (exp (- (1/2)))]]) = Inr (Fin 1)"
proof -
  define s :: "fl gportrait" where
    "s = \<lparr>gp_peak = GArray [Fin 0], gp_width = GArray [Fin 1], gp_amp = GArray [Fin 2],
          gp_profile = None, gp_Amax = None\<rparr>"
  have g: "gauss_components_gen exact_arith (gp_amp s) (gp_peak s) (gp_width s) [Fin 0, Fin 1]
      = Inr (GArr2 [[Fin 2, Fin (2 * exp (- (1/2)))]])"
    by (simp add: s_def gauss_components_gen_def broadcast_col_gen_def exact_arith_def
        fl_exact1_def fl_exact2_def fl_div_def fl_zero_def)
  have rm: "raw_max_gen exact_arith s [Fin 0, Fin 1] = Inr (Fin 2)"
    unfolding raw_max_gen_def g
    by (simp add: exact_arith_def fl_maximum_def fl_le_def)
  have mono: "\<And>x y :: real. x \<le> y \<Longrightarrow> fl_le (Fin x) (Fin y)"
    by (simp add: fl_le_def)
  have "\<exists>raw.
      gauss_components_gen exact_arith (gp_amp s) (gp_peak s) (gp_width s) [Fin 0, Fin 1]
        = Inr (GArr2 raw)
      \<and> calc_profile_gen exact_arith s [Fin 0, Fin 1]
        = (Inr (GArr2 (map (map (\<lambda>v. fl_div Fin v (Fin 2))) raw)), s)
      \<and> Fin 1 \<in> set (concat (map (map (\<lambda>v. fl_div Fin v (Fin 2))) raw))
      \<and> (\<forall>v \<in> set (concat (map (map (\<lambda>v. fl_div Fin v (Fin 2))) raw)). fl_le v (Fin 1))
      \<and> amax_gen exact_arith (GArr2 (map (map (\<lambda>v. fl_div Fin v (Fin 2))) raw)) = Inr (Fin 1)"
    by (rule calc_profile_ieee_self_normalized
          [where rnd = Fin and a = "[Fin 2]" and p = "[Fin 0]" and w = "[Fin 1]",
           OF _ mono _ _ _ _ _ _ _ _ _ rm])
       (simp_all add: s_def exact_arith_def)
  then obtain raw where
    "gauss_components_gen exact_arith (gp_amp s) (gp_peak s) (gp_width s) [Fin 0, Fin 1]
        = Inr (GArr2 raw)"
    and c: "calc_profile_gen exact_arith s [Fin 0, Fin 1]
        = (Inr (GArr2 (map (map (\<lambda>v. fl_div Fin v (Fin 2))) raw)), s)"
    and m: "amax_gen exact_arith (GArr2 (map (map (\<lambda>v. fl_div Fin v (Fin 2))) raw)) = Inr (Fin 1)"
    by blast
  with g have raw: "raw = [[Fin 2, Fin (2 * exp (- (1/2)))]]" by simp
  have q: "map (map (\<lambda>v. fl_div Fin v (Fin 2))) raw = [[Fin 1, Fin (exp (- (1/2)))]]"
    unfolding raw by (simp add: fl_div_def)
  from rm c m show ?thesis unfolding q s_def by simp
qed

end
